theory Spec2Isabelle
  imports Main "HOL-Library.Sublist" "HOL-Library.AList"
begin

section \<open>Python values and exceptions\<close>

text \<open>
  The decoders of \<^verbatim>\<open>nio/responses.py\<close> work on what \<^verbatim>\<open>json.loads\<close> returns: \<^verbatim>\<open>None\<close>,
  booleans, numbers, strings, lists and dictionaries.  A dictionary is an association list
  in insertion order with first-match lookup; a parsed JSON object has pairwise distinct
  keys.  \<open>JNull\<close> is Python's \<^verbatim>\<open>None\<close>.  Only integral numbers are represented; the code
  under study treats every number alike: a number differs from every string, cannot be
  subscripted by a string, and \<^verbatim>\<open>in\<close> is not defined on it.
\<close>

datatype json =
    JNull
  | JBool bool
  | JInt int
  | JStr string
  | JArr "json list"
  | JObj "(string \<times> json) list"

text \<open>
  The exceptions that the modelled code can raise.  \<^verbatim>\<open>validate_json\<close> raises
  \<open>ValidationError\<close> (or \<open>SchemaError\<close>); subscripting raises \<open>KeyError\<close> on a dictionary
  without the key and \<open>TypeError\<close> on a value that cannot be subscripted by a string;
  \<^verbatim>\<open>.keys()\<close> and \<^verbatim>\<open>.items()\<close> raise \<open>AttributeError\<close> on anything that is not a dictionary.
\<close>

datatype error =
    ValidationError
  | SchemaError
  | KeyError string
  | TypeError
  | AttributeError

definition ebind :: "error + 'a \<Rightarrow> ('a \<Rightarrow> error + 'b) \<Rightarrow> error + 'b" where
  "ebind m f = (case m of Inl e \<Rightarrow> Inl e | Inr x \<Rightarrow> f x)"

text \<open>\<^verbatim>\<open>d[k]\<close> for a string literal \<open>k\<close>.\<close>

fun py_getitem :: "json \<Rightarrow> string \<Rightarrow> error + json" where
  "py_getitem (JObj fs) k = (case map_of fs k of Some v \<Rightarrow> Inr v | None \<Rightarrow> Inl (KeyError k))"
| "py_getitem _ k = Inl TypeError"

text \<open>
  \<^verbatim>\<open>k in d\<close> for a string literal \<open>k\<close>: key membership on a dictionary, substring test on a
  string, element membership on a list, \<open>TypeError\<close> on \<^verbatim>\<open>None\<close>, booleans and numbers.
\<close>

fun py_in :: "string \<Rightarrow> json \<Rightarrow> error + bool" where
  "py_in k (JObj fs) = Inr (k \<in> set (map fst fs))"
| "py_in k (JStr s) = Inr (sublist k s)"
| "py_in k (JArr xs) = Inr (JStr k \<in> set xs)"
| "py_in k _ = Inl TypeError"

text \<open>\<^verbatim>\<open>for x in d\<close>: the elements of a list, the keys of a dictionary, the characters of a string.\<close>

fun py_iter :: "json \<Rightarrow> error + json list" where
  "py_iter (JArr xs) = Inr xs"
| "py_iter (JObj fs) = Inr (map (\<lambda>kv. JStr (fst kv)) fs)"
| "py_iter (JStr s) = Inr (map (\<lambda>c. JStr [c]) s)"
| "py_iter _ = Inl TypeError"

fun py_keys :: "json \<Rightarrow> error + string list" where
  "py_keys (JObj fs) = Inr (map fst fs)"
| "py_keys _ = Inl AttributeError"

fun py_items :: "json \<Rightarrow> error + (string \<times> json) list" where
  "py_items (JObj fs) = Inr fs"
| "py_items _ = Inl AttributeError"

section \<open>The schema validator\<close>

text \<open>
  \<^verbatim>\<open>nio/schemas.py\<close> (the table \<^verbatim>\<open>Schemas\<close> and \<^verbatim>\<open>validate_json\<close>) is imported by
  \<^verbatim>\<open>responses.py\<close>.  The schemas the decoders name are the constructors of \<open>schema\<close>; what
  a schema accepts is the parameter \<open>V\<close> of every decoder below.
\<close>

datatype schema =
    Schemas_room_event
  | Schemas_redacted_event
  | Schemas_room_message
  | Schemas_room_message_text
  | Schemas_room_timeline
  | Schemas_sync
  | Schemas_error

definition validate_json :: "(schema \<Rightarrow> json \<Rightarrow> bool) \<Rightarrow> json \<Rightarrow> schema \<Rightarrow> error + unit" where
  "validate_json V instance s = (if V s instance then Inr () else Inl ValidationError)"

section \<open>To-device messages (\<^verbatim>\<open>event_builders/direct_messages.py\<close>)\<close>

record ToDeviceMessage =
  type :: string
  recipient :: string
  recipient_device :: string
  content :: json

record RoomKeyRequestMessage = ToDeviceMessage +
  request_id :: string
  session_id :: string
  room_id :: string
  algorithm :: string

text \<open>
  \<^verbatim>\<open>as_dict\<close> is defined once, in \<^verbatim>\<open>ToDeviceMessage\<close>, and inherited unchanged by
  \<^verbatim>\<open>DummyMessage\<close> (no further fields) and \<^verbatim>\<open>RoomKeyRequestMessage\<close>; it is therefore a
  function on every extension of the base record.
\<close>

definition as_dict :: "'a ToDeviceMessage_scheme \<Rightarrow> json" where
  "as_dict self =
     JObj [(''messages'',
            JObj [(recipient self,
                   JObj [(recipient_device self, content self)])])]"

section \<open>Events (\<^verbatim>\<open>responses.py\<close>)\<close>

text \<open>
  The classes \<^verbatim>\<open>BadEvent\<close>, \<^verbatim>\<open>RedactedEvent\<close> and \<^verbatim>\<open>RoomMessageText\<close> with the fields
  their constructors store.  Python does not check the annotated field types, so a field
  holds whatever value the payload had; an optional field that is absent holds \<^verbatim>\<open>None\<close>.
  The attribute \<^verbatim>\<open>type\<close> of \<^verbatim>\<open>BadEvent\<close> is the selector \<open>bad_type\<close> (the name \<open>type\<close>
  is the field of \<open>ToDeviceMessage\<close>).  \<^verbatim>\<open>Api.to_json\<close> (\<^verbatim>\<open>nio/api.py\<close>) is the parameter
  \<open>to_json\<close>.
\<close>

datatype event =
    BadEvent (event_id: json) (sender: json) (server_timestamp: json)
      (bad_type: json) (source: string)
  | RedactedEvent (event_id: json) (sender: json) (server_timestamp: json)
      (event_type: json) (redacter: json) (reason: json)
  | RoomMessageText (event_id: json) (sender: json) (server_timestamp: json)
      (body: json) (formatted_body: json) (format: json)

definition BadEvent_from_dict :: "(json \<Rightarrow> string) \<Rightarrow> json \<Rightarrow> error + event" where
  "BadEvent_from_dict to_json parsed_dict =
     ebind (py_getitem parsed_dict ''event_id'') (\<lambda>eid.
     ebind (py_getitem parsed_dict ''sender'') (\<lambda>snd.
     ebind (py_getitem parsed_dict ''origin_server_ts'') (\<lambda>ts.
     ebind (py_getitem parsed_dict ''type'') (\<lambda>ty.
     Inr (BadEvent eid snd ts ty (to_json parsed_dict))))))"

text \<open>
  A \<^verbatim>\<open>try: validate_json(...) except (ValidationError, SchemaError): return fallback\<close>
  block: the handler runs for the two validation exceptions only.
\<close>

definition RedactedEvent_from_dict ::
  "(schema \<Rightarrow> json \<Rightarrow> bool) \<Rightarrow> (json \<Rightarrow> string) \<Rightarrow> json \<Rightarrow> error + event" where
  "RedactedEvent_from_dict V to_json parsed_dict =
     (case validate_json V parsed_dict Schemas_redacted_event of
        Inl ValidationError \<Rightarrow> BadEvent_from_dict to_json parsed_dict
      | Inl SchemaError \<Rightarrow> BadEvent_from_dict to_json parsed_dict
      | Inl e \<Rightarrow> Inl e
      | Inr _ \<Rightarrow>
          ebind (py_getitem parsed_dict ''unsigned'') (\<lambda>u.
          ebind (py_getitem u ''redacted_because'') (\<lambda>rb.
          ebind (py_getitem rb ''sender'') (\<lambda>redacter.
          ebind (py_getitem parsed_dict ''unsigned'') (\<lambda>u'.
          ebind (py_getitem u' ''redacted_because'') (\<lambda>rb'.
          ebind (py_getitem rb' ''content'') (\<lambda>content_dict.
          ebind (py_in ''reason'' content_dict) (\<lambda>has_reason.
          ebind (if has_reason then py_getitem content_dict ''reason'' else Inr JNull) (\<lambda>reason.
          ebind (py_getitem parsed_dict ''event_id'') (\<lambda>eid.
          ebind (py_getitem parsed_dict ''sender'') (\<lambda>snd.
          ebind (py_getitem parsed_dict ''origin_server_ts'') (\<lambda>ts.
          ebind (py_getitem parsed_dict ''type'') (\<lambda>ty.
          Inr (RedactedEvent eid snd ts ty redacter reason))))))))))))))"

definition RoomMessageText_from_dict ::
  "(schema \<Rightarrow> json \<Rightarrow> bool) \<Rightarrow> (json \<Rightarrow> string) \<Rightarrow> json \<Rightarrow> error + event" where
  "RoomMessageText_from_dict V to_json parsed_dict =
     (case validate_json V parsed_dict Schemas_room_message_text of
        Inl ValidationError \<Rightarrow> BadEvent_from_dict to_json parsed_dict
      | Inl SchemaError \<Rightarrow> BadEvent_from_dict to_json parsed_dict
      | Inl e \<Rightarrow> Inl e
      | Inr _ \<Rightarrow>
          ebind (py_getitem parsed_dict ''content'') (\<lambda>c.
          ebind (py_getitem c ''body'') (\<lambda>body.
          ebind (py_getitem parsed_dict ''content'') (\<lambda>c1.
          ebind (py_in ''formatted_body'' c1) (\<lambda>has_fb.
          ebind (if has_fb
                 then ebind (py_getitem parsed_dict ''content'') (\<lambda>c2.
                        py_getitem c2 ''formatted_body'')
                 else Inr JNull) (\<lambda>formatted_body.
          ebind (py_getitem parsed_dict ''content'') (\<lambda>c3.
          ebind (py_in ''format'' c3) (\<lambda>has_f.
          ebind (if has_f
                 then ebind (py_getitem parsed_dict ''content'') (\<lambda>c4.
                        py_getitem c4 ''format'')
                 else Inr JNull) (\<lambda>body_format.
          ebind (py_getitem parsed_dict ''event_id'') (\<lambda>eid.
          ebind (py_getitem parsed_dict ''sender'') (\<lambda>snd.
          ebind (py_getitem parsed_dict ''origin_server_ts'') (\<lambda>ts.
          Inr (RoomMessageText eid snd ts body formatted_body body_format)))))))))))))"

text \<open>
  \<^verbatim>\<open>RoomMessage.from_dict\<close> returns an event, or \<^verbatim>\<open>None\<close> for a message type other than
  \<^verbatim>\<open>m.text\<close>; its parameter \<^verbatim>\<open>olm\<close> is not used.
\<close>

definition RoomMessage_from_dict ::
  "(schema \<Rightarrow> json \<Rightarrow> bool) \<Rightarrow> (json \<Rightarrow> string) \<Rightarrow> json \<Rightarrow> 'olm option
     \<Rightarrow> error + event option" where
  "RoomMessage_from_dict V to_json parsed_dict olm =
     (case validate_json V parsed_dict Schemas_room_message of
        Inl ValidationError \<Rightarrow> ebind (BadEvent_from_dict to_json parsed_dict) (\<lambda>e. Inr (Some e))
      | Inl SchemaError \<Rightarrow> ebind (BadEvent_from_dict to_json parsed_dict) (\<lambda>e. Inr (Some e))
      | Inl e \<Rightarrow> Inl e
      | Inr _ \<Rightarrow>
          ebind (py_getitem parsed_dict ''content'') (\<lambda>content_dict.
          ebind (py_getitem content_dict ''msgtype'') (\<lambda>msgtype.
          if msgtype = JStr ''m.text''
          then ebind (RoomMessageText_from_dict V to_json parsed_dict) (\<lambda>e. Inr (Some e))
          else Inr None)))"

section \<open>Responses\<close>

record Timeline =
  events :: "event option list"
  limited :: json
  prev_batch :: json

record JoindedInfo =
  timeline :: Timeline
  state :: "json list"

record RoomInfo =
  invite :: "(string \<times> json) list"
  join :: "(string \<times> JoindedInfo option) list"
  leave :: "(string \<times> json) list"

datatype response =
    ErrorResponse (message: json) (code: json)
  | SyncRepsponse (next_batch: json) (rooms: RoomInfo) (partial: bool)

definition ErrorResponse_from_dict :: "(schema \<Rightarrow> json \<Rightarrow> bool) \<Rightarrow> json \<Rightarrow> error + response" where
  "ErrorResponse_from_dict V parsed_dict =
     (case validate_json V parsed_dict Schemas_error of
        Inl ValidationError \<Rightarrow> Inr (ErrorResponse (JStr ''Unknown error'') (JStr []))
      | Inl SchemaError \<Rightarrow> Inr (ErrorResponse (JStr ''Unknown error'') (JStr []))
      | Inl e \<Rightarrow> Inl e
      | Inr _ \<Rightarrow>
          ebind (py_getitem parsed_dict ''error'') (\<lambda>err.
          ebind (py_getitem parsed_dict ''errcode'') (\<lambda>errcode.
          Inr (ErrorResponse err errcode))))"

text \<open>
  The body of the loop of \<^verbatim>\<open>_get_room_events\<close> inside its \<^verbatim>\<open>try\<close>: the result is the
  list of what the iteration appends to \<^verbatim>\<open>events\<close> (nothing or one entry), or the
  exception it raises.  The entry is \<^verbatim>\<open>None\<close> when \<^verbatim>\<open>RoomMessage.from_dict\<close> returned
  \<^verbatim>\<open>None\<close>: the code appends the return value as it is.
\<close>

definition room_events_try ::
  "(schema \<Rightarrow> json \<Rightarrow> bool) \<Rightarrow> (json \<Rightarrow> string) \<Rightarrow> 'olm option \<Rightarrow> json
     \<Rightarrow> error + event option list" where
  "room_events_try V to_json olm event_dict =
     ebind (validate_json V event_dict Schemas_room_event) (\<lambda>_.
     ebind (py_in ''unsigned'' event_dict) (\<lambda>has_unsigned.
     ebind (if has_unsigned
            then ebind (py_getitem event_dict ''unsigned'') (\<lambda>u. py_in ''redacted_because'' u)
            else Inr False) (\<lambda>redacted.
     if redacted
     then ebind (RedactedEvent_from_dict V to_json event_dict) (\<lambda>e. Inr [Some e])
     else ebind (py_getitem event_dict ''type'') (\<lambda>ty.
          if ty = JStr ''m.room.message''
          then ebind (RoomMessage_from_dict V to_json event_dict olm) (\<lambda>e. Inr [e])
          else Inr []))))"

text \<open>
  The loop itself: the handler \<^verbatim>\<open>except (SchemaError, ValidationError)\<close> prints the
  exception and goes on with the next element (the printing is not modelled); any other
  exception leaves the function.  \<open>evs\<close> is the list \<^verbatim>\<open>events\<close> built so far.
\<close>

fun get_room_events_loop ::
  "(schema \<Rightarrow> json \<Rightarrow> bool) \<Rightarrow> (json \<Rightarrow> string) \<Rightarrow> 'olm option \<Rightarrow> json list
     \<Rightarrow> event option list \<Rightarrow> error + event option list" where
  "get_room_events_loop V to_json olm [] evs = Inr evs"
| "get_room_events_loop V to_json olm (event_dict # rest) evs =
     (case room_events_try V to_json olm event_dict of
        Inl ValidationError \<Rightarrow> get_room_events_loop V to_json olm rest evs
      | Inl SchemaError \<Rightarrow> get_room_events_loop V to_json olm rest evs
      | Inl e \<Rightarrow> Inl e
      | Inr new \<Rightarrow> get_room_events_loop V to_json olm rest (evs @ new))"

definition get_room_events ::
  "(schema \<Rightarrow> json \<Rightarrow> bool) \<Rightarrow> (json \<Rightarrow> string) \<Rightarrow> json \<Rightarrow> int \<Rightarrow> 'olm option
     \<Rightarrow> error + event option list" where
  "get_room_events V to_json parsed_dict max_events olm =
     ebind (py_iter parsed_dict) (\<lambda>event_dicts.
     get_room_events_loop V to_json olm event_dicts [])"

definition get_timeline ::
  "(schema \<Rightarrow> json \<Rightarrow> bool) \<Rightarrow> (json \<Rightarrow> string) \<Rightarrow> json \<Rightarrow> int \<Rightarrow> 'olm option
     \<Rightarrow> error + Timeline" where
  "get_timeline V to_json parsed_dict max_events olm =
     ebind (validate_json V parsed_dict Schemas_room_timeline) (\<lambda>_.
     ebind (py_getitem parsed_dict ''events'') (\<lambda>evs.
     ebind (get_room_events V to_json evs max_events olm) (\<lambda>events.
     ebind (py_getitem parsed_dict ''limited'') (\<lambda>lim.
     ebind (py_getitem parsed_dict ''prev_batch'') (\<lambda>pb.
     Inr \<lparr>events = events, limited = lim, prev_batch = pb\<rparr>)))))"

text \<open>
  \<^verbatim>\<open>_get_room_info\<close>: the dictionary comprehension gives every joined room id the value
  \<^verbatim>\<open>None\<close>; the loop then stores each room's \<^verbatim>\<open>JoindedInfo\<close>.  \<^verbatim>\<open>_get_timeline\<close> is called
  with the room's timeline only, so with its defaults \<^verbatim>\<open>max_events=0\<close>, \<^verbatim>\<open>olm=None\<close>.
\<close>

fun get_room_info_loop ::
  "(schema \<Rightarrow> json \<Rightarrow> bool) \<Rightarrow> (json \<Rightarrow> string) \<Rightarrow> (string \<times> json) list
     \<Rightarrow> (string \<times> JoindedInfo option) list \<Rightarrow> error + (string \<times> JoindedInfo option) list" where
  "get_room_info_loop V to_json [] joined_rooms = Inr joined_rooms"
| "get_room_info_loop V to_json ((rid, room_dict) # rest) joined_rooms =
     ebind (py_getitem room_dict ''timeline'') (\<lambda>tl.
     ebind (get_timeline V to_json tl 0 (None :: unit option)) (\<lambda>timeline.
     get_room_info_loop V to_json rest
       (AList.update rid (Some \<lparr>timeline = timeline, state = []\<rparr>) joined_rooms)))"

definition get_room_info ::
  "(schema \<Rightarrow> json \<Rightarrow> bool) \<Rightarrow> (json \<Rightarrow> string) \<Rightarrow> json \<Rightarrow> int \<Rightarrow> 'olm option
     \<Rightarrow> error + RoomInfo" where
  "get_room_info V to_json parsed_dict max_events olm =
     ebind (py_getitem parsed_dict ''join'') (\<lambda>j.
     ebind (py_keys j) (\<lambda>keys.
     ebind (py_getitem parsed_dict ''join'') (\<lambda>j'.
     ebind (py_items j') (\<lambda>items.
     ebind (get_room_info_loop V to_json items
              (fold (\<lambda>key d. AList.update key None d) keys [])) (\<lambda>joined_rooms.
     Inr \<lparr>invite = [], join = joined_rooms, leave = []\<rparr>)))))"

definition SyncRepsponse_from_dict ::
  "(schema \<Rightarrow> json \<Rightarrow> bool) \<Rightarrow> (json \<Rightarrow> string) \<Rightarrow> json \<Rightarrow> int \<Rightarrow> 'olm option
     \<Rightarrow> error + response" where
  "SyncRepsponse_from_dict V to_json parsed_dict max_events olm =
     (case ebind (validate_json V parsed_dict Schemas_sync) (\<lambda>_.
           ebind (py_getitem parsed_dict ''rooms'') (\<lambda>r.
           get_room_info V to_json r max_events olm)) of
        Inl ValidationError \<Rightarrow> ErrorResponse_from_dict V parsed_dict
      | Inl SchemaError \<Rightarrow> ErrorResponse_from_dict V parsed_dict
      | Inl e \<Rightarrow> Inl e
      | Inr room_info \<Rightarrow>
          ebind (py_getitem parsed_dict ''next_batch'') (\<lambda>nb.
          Inr (SyncRepsponse nb room_info False)))"

type_synonym DummyMessage = ToDeviceMessage

section \<open>The schemas and the serialiser, as far as the specification fixes them\<close>

text \<open>
  Modelled from the spec: reading aid for the schema table below, which is not in the
  sources at hand.  \<open>obj_get j k\<close> is the member \<open>k\<close> of a JSON object, if \<open>j\<close> is
  an object that has it.
\<close>

fun obj_get :: "json \<Rightarrow> string \<Rightarrow> json option" where
  "obj_get (JObj fs) k = map_of fs k"
| "obj_get _ k = None"

text \<open>Modelled from the spec: the JSON-schema constraint \<^verbatim>\<open>"type": "object"\<close>.\<close>

fun is_obj :: "json \<Rightarrow> bool" where
  "is_obj (JObj fs) = True"
| "is_obj _ = False"

text \<open>Modelled from the spec: the JSON-schema constraint \<^verbatim>\<open>"type": "array"\<close>.\<close>

fun is_arr :: "json \<Rightarrow> bool" where
  "is_arr (JArr xs) = True"
| "is_arr _ = False"

text \<open>
  Modelled from the spec: the JSON-schema constraint \<^verbatim>\<open>"required": [...]\<close> on an object.
\<close>

definition requires :: "json \<Rightarrow> string list \<Rightarrow> bool" where
  "requires j ks = (is_obj j \<and> list_all (\<lambda>k. obj_get j k \<noteq> None) ks)"

text \<open>
  Modelled from the spec: a required member \<open>k\<close> whose value satisfies the sub-schema \<open>P\<close>.
\<close>

definition sub_ok :: "json \<Rightarrow> string \<Rightarrow> (json \<Rightarrow> bool) \<Rightarrow> bool" where
  "sub_ok j k P = (case obj_get j k of Some v \<Rightarrow> P v | None \<Rightarrow> False)"

text \<open>
  Modelled from the spec: the schema table \<^verbatim>\<open>Schemas\<close> of \<^verbatim>\<open>nio/schemas.py\<close>, which is
  missing from the sources at hand.  Section 6 of the specification gives the wire shapes:
  a sync payload has \<^verbatim>\<open>next_batch\<close> and
  \<^verbatim>\<open>rooms.join.<room_id>.timeline.{events[], limited, prev_batch}\<close>; each event has
  \<^verbatim>\<open>event_id\<close>, \<^verbatim>\<open>sender\<close>, \<^verbatim>\<open>origin_server_ts\<close>, \<^verbatim>\<open>type\<close>, \<^verbatim>\<open>content\<close> and optionally
  \<^verbatim>\<open>unsigned.redacted_because.{sender, content.reason}\<close>; a message has \<^verbatim>\<open>content.msgtype\<close>,
  a text message \<^verbatim>\<open>content.body\<close>; an error has \<^verbatim>\<open>error\<close> and \<^verbatim>\<open>errcode\<close>.  Only the presence
  of these members and the container kinds are checked.  This table instantiates the
  parameter \<open>V\<close> at concrete inputs; the general theorems hold for every \<open>V\<close>.
\<close>

fun spec_schemas :: "schema \<Rightarrow> json \<Rightarrow> bool" where
  "spec_schemas Schemas_room_event j =
     (requires j [''event_id'', ''sender'', ''origin_server_ts'', ''type'', ''content'']
      \<and> (case obj_get j ''unsigned'' of Some u \<Rightarrow> is_obj u | None \<Rightarrow> True))"
| "spec_schemas Schemas_redacted_event j =
     sub_ok j ''unsigned'' (\<lambda>u.
       sub_ok u ''redacted_because'' (\<lambda>rb.
         requires rb [''sender'', ''content''] \<and> sub_ok rb ''content'' is_obj))"
| "spec_schemas Schemas_room_message j =
     sub_ok j ''content'' (\<lambda>c. requires c [''msgtype''])"
| "spec_schemas Schemas_room_message_text j =
     sub_ok j ''content'' (\<lambda>c. requires c [''msgtype'', ''body''])"
| "spec_schemas Schemas_room_timeline j =
     (requires j [''events'', ''limited'', ''prev_batch''] \<and> sub_ok j ''events'' is_arr)"
| "spec_schemas Schemas_sync j =
     (requires j [''next_batch'', ''rooms'']
      \<and> sub_ok j ''rooms'' (\<lambda>r.
            sub_ok r ''join'' (\<lambda>jn.
              case jn of
                JObj rs \<Rightarrow> list_all (\<lambda>kv. requires (snd kv) [''timeline'']) rs
              | _ \<Rightarrow> False)))"
| "spec_schemas Schemas_error j = requires j [''error'', ''errcode'']"


text \<open>
  Modelled from the spec: \<^verbatim>\<open>Api.to_json\<close> of \<^verbatim>\<open>nio/api.py\<close>, which is missing from the
  sources at hand.  The specification says of it only that \<^verbatim>\<open>BadEvent.source\<close> is the
  original payload, serialized.  The functions below print compact JSON text (decimal
  integers, strings with quote and backslash escaped); they instantiate the parameter
  \<open>to_json\<close> at concrete inputs, and the general theorems hold for every \<open>to_json\<close>.
\<close>

function digits :: "nat \<Rightarrow> string" where
  "digits n =
     (if n < 10 then [char_of (48 + n)]
      else digits (n div 10) @ [char_of (48 + n mod 10)])"
  by pat_completeness auto
termination
  by (relation "measure id") auto

text \<open>Modelled from the spec: part of the serialiser, a signed decimal numeral.\<close>

definition dumps_int :: "int \<Rightarrow> string" where
  "dumps_int i = (if i < 0 then CHR ''-'' # digits (nat (- i)) else digits (nat i))"

text \<open>Modelled from the spec: part of the serialiser, escaping inside a string literal.\<close>

fun escape :: "string \<Rightarrow> string" where
  "escape [] = []"
| "escape (c # cs) =
     (if c = CHR 0x22 \<or> c = CHR 0x5C then CHR 0x5C # c # escape cs else c # escape cs)"

text \<open>Modelled from the spec: part of the serialiser, a string literal.\<close>

definition quote :: "string \<Rightarrow> string" where
  "quote s = CHR 0x22 # escape s @ [CHR 0x22]"

text \<open>Modelled from the spec: part of the serialiser, comma-separated items.\<close>

fun commas :: "string list \<Rightarrow> string" where
  "commas [] = []"
| "commas [x] = x"
| "commas (x # y # ys) = x @ '','' @ commas (y # ys)"

text \<open>Modelled from the spec: \<^verbatim>\<open>Api.to_json\<close>, the serialiser itself.\<close>

fun Api_to_json :: "json \<Rightarrow> string" where
  "Api_to_json JNull = ''null''"
| "Api_to_json (JBool b) = (if b then ''true'' else ''false'')"
| "Api_to_json (JInt i) = dumps_int i"
| "Api_to_json (JStr s) = quote s"
| "Api_to_json (JArr xs) = ''['' @ commas (map Api_to_json xs) @ '']''"
| "Api_to_json (JObj fs) =
     ''{'' @ commas (map (\<lambda>kv. quote (fst kv) @ '':'' @ Api_to_json (snd kv)) fs) @ ''}''"

section \<open>What the decoders rely on the schemas for\<close>







text \<open>Modelled from the spec: the error schema guarantees \<^verbatim>\<open>error\<close> and \<^verbatim>\<open>errcode\<close>.\<close>

definition error_adequate :: "(schema \<Rightarrow> json \<Rightarrow> bool) \<Rightarrow> bool" where
  "error_adequate V \<longleftrightarrow>
     (\<forall>p. V Schemas_error p \<longrightarrow>
        (\<exists>e c. py_getitem p ''error'' = Inr e \<and> py_getitem p ''errcode'' = Inr c))"


section \<open>Basic facts\<close>

lemma ebind_Inl [simp]: "ebind (Inl e) f = Inl e"
  by (simp add: ebind_def)

lemma ebind_Inr [simp]: "ebind (Inr x) f = f x"
  by (simp add: ebind_def)

lemma ebind_eq_Inr_iff: "ebind m f = Inr y \<longleftrightarrow> (\<exists>x. m = Inr x \<and> f x = Inr y)"
  by (cases m) simp_all

lemma validate_json_accept [simp]: "V s p \<Longrightarrow> validate_json V p s = Inr ()"
  by (simp add: validate_json_def)

lemma validate_json_reject [simp]: "\<not> V s p \<Longrightarrow> validate_json V p s = Inl ValidationError"
  by (simp add: validate_json_def)

lemma py_getitem_Inr_iff:
  "py_getitem p k = Inr v \<longleftrightarrow> (\<exists>fs. p = JObj fs \<and> map_of fs k = Some v)"
  by (cases p) (auto split: option.splits)

lemma optional_field [simp]:
  "(if k \<in> fst ` set cs
    then (case map_of cs k of None \<Rightarrow> Inl (KeyError k) | Some v \<Rightarrow> Inr v)
    else Inr JNull) = Inr (case map_of cs k of Some v \<Rightarrow> v | None \<Rightarrow> JNull)"
  by (auto split: option.splits simp: map_of_eq_None_iff [symmetric])

lemma map_of_Some_key: "map_of fs k = Some v \<Longrightarrow> k \<in> fst ` set fs"
  by (metis map_of_eq_None_iff option.distinct(1))

lemma get_room_events_single:
  "get_room_events V to_json (JArr [ev]) m olm =
     (case room_events_try V to_json olm ev of
        Inl ValidationError \<Rightarrow> Inr []
      | Inl SchemaError \<Rightarrow> Inr []
      | Inl e \<Rightarrow> Inl e
      | Inr new \<Rightarrow> Inr new)"
  by (simp add: get_room_events_def split: sum.splits error.splits)

lemma get_room_events_single_Inr:
  assumes "get_room_events V to_json (JArr [p]) m olm = Inr [x]"
  shows "room_events_try V to_json olm p = Inr [x]"
  using assms by (simp add: get_room_events_single split: sum.splits error.splits)

lemmas decode_defs =
  get_room_events_def room_events_try_def RoomMessage_from_dict_def
  RoomMessageText_from_dict_def RedactedEvent_from_dict_def BadEvent_from_dict_def
  requires_def sub_ok_def

section \<open>The schemas of the specification guarantee what the decoders read\<close>

lemma requires_getitem:
  "requires j ks \<Longrightarrow> k \<in> set ks \<Longrightarrow> \<exists>v. py_getitem j k = Inr v"
  by (cases j) (auto simp: requires_def list_all_iff split: option.splits)










lemma spec_schemas_error: "error_adequate spec_schemas"
  unfolding error_adequate_def
proof (intro allI impI)
  fix p assume "spec_schemas Schemas_error p"
  then have r: "requires p [''error'', ''errcode'']" by simp
  from requires_getitem [OF r, of "''error''"] requires_getitem [OF r, of "''errcode''"]
  show "\<exists>e c. py_getitem p ''error'' = Inr e \<and> py_getitem p ''errcode'' = Inr c"
    by auto
qed


section \<open>No decoder raises when the schemas guarantee what it reads\<close>













section \<open>Which exceptions can leave \<^verbatim>\<open>from_dict\<close>\<close>




section \<open>The loop of \<^verbatim>\<open>_get_room_events\<close>, element by element\<close>

lemma get_room_events_loop_append:
  "get_room_events_loop V to_json olm (xs @ ys) evs =
     ebind (get_room_events_loop V to_json olm xs evs) (get_room_events_loop V to_json olm ys)"
proof (induction xs arbitrary: evs)
  case Nil
  show ?case by simp
next
  case (Cons x xs)
  show ?case
  proof (cases "room_events_try V to_json olm x")
    case (Inl e)
    then show ?thesis
      using Cons.IH [of evs] by (cases e) simp_all
  next
    case (Inr new)
    then show ?thesis
      using Cons.IH [of "evs @ new"] by simp
  qed
qed

lemma get_room_events_loop_acc:
  "get_room_events_loop V to_json olm xs evs =
     ebind (get_room_events_loop V to_json olm xs []) (\<lambda>r. Inr (evs @ r))"
proof (induction xs arbitrary: evs)
  case Nil
  show ?case by simp
next
  case (Cons x xs)
  show ?case
  proof (cases "room_events_try V to_json olm x")
    case (Inl e)
    then show ?thesis
      using Cons.IH [of evs] by (cases e) simp_all
  next
    case (Inr new)
    have "get_room_events_loop V to_json olm (x # xs) evs =
        ebind (get_room_events_loop V to_json olm xs []) (\<lambda>r. Inr ((evs @ new) @ r))"
      using Inr Cons.IH [of "evs @ new"] by simp
    moreover have "get_room_events_loop V to_json olm (x # xs) [] =
        ebind (get_room_events_loop V to_json olm xs []) (\<lambda>r. Inr (new @ r))"
      using Inr Cons.IH [of new] by simp
    ultimately show ?thesis
      by (cases "get_room_events_loop V to_json olm xs []") simp_all
  qed
qed

lemma get_room_events_Cons:
  "get_room_events V to_json (JArr (x # xs)) m olm =
     ebind (get_room_events V to_json (JArr [x]) m olm) (\<lambda>a.
     ebind (get_room_events V to_json (JArr xs) m olm) (\<lambda>b. Inr (a @ b)))"
proof -
  have "get_room_events_loop V to_json olm ([x] @ xs) [] =
      ebind (get_room_events_loop V to_json olm [x] [])
        (get_room_events_loop V to_json olm xs)"
    by (rule get_room_events_loop_append)
  also have "\<dots> = ebind (get_room_events_loop V to_json olm [x] []) (\<lambda>a.
      ebind (get_room_events_loop V to_json olm xs []) (\<lambda>b. Inr (a @ b)))"
    using get_room_events_loop_acc [of V to_json olm xs] by metis
  finally show ?thesis
    by (simp add: get_room_events_def)
qed

lemma get_room_events_append:
  "get_room_events V to_json (JArr (xs @ ys)) m olm =
     ebind (get_room_events V to_json (JArr xs) m olm) (\<lambda>a.
     ebind (get_room_events V to_json (JArr ys) m olm) (\<lambda>b. Inr (a @ b)))"
proof (induction xs)
  case Nil
  show ?case
    by (cases "get_room_events V to_json (JArr ys) m olm") (simp_all add: get_room_events_def)
next
  case (Cons x xs)
  have "get_room_events V to_json (JArr ((x # xs) @ ys)) m olm =
      ebind (get_room_events V to_json (JArr [x]) m olm) (\<lambda>a.
      ebind (get_room_events V to_json (JArr (xs @ ys)) m olm) (\<lambda>b. Inr (a @ b)))"
    using get_room_events_Cons [of V to_json x "xs @ ys" m olm] by simp
  then show ?case
    unfolding Cons.IH get_room_events_Cons [of V to_json x xs m olm]
    by (cases "get_room_events V to_json (JArr [x]) m olm";
        cases "get_room_events V to_json (JArr xs) m olm";
        cases "get_room_events V to_json (JArr ys) m olm") simp_all
qed

lemma get_room_events_decoded:
  assumes "list_all2 (\<lambda>e d. get_room_events V to_json (JArr [e]) m olm = Inr [Some d]) xs dxs"
  shows "get_room_events V to_json (JArr xs) m olm = Inr (map Some dxs)"
  using assms
proof (induction rule: list_all2_induct)
  case Nil
  show ?case by (simp add: get_room_events_def)
next
  case (Cons x xs d dxs)
  then show ?case
    by (simp add: get_room_events_Cons [of V to_json x xs m olm])
qed

lemma get_room_events_invalid:
  "\<not> V Schemas_room_event ev \<Longrightarrow> get_room_events V to_json (JArr [ev]) m olm = Inr []"
  by (simp add: get_room_events_single room_events_try_def)

section \<open>Where a \<^verbatim>\<open>BadEvent\<close> comes from\<close>

lemma BadEvent_from_dict_fields:
  assumes "BadEvent_from_dict to_json p = Inr e"
  shows "is_BadEvent e \<and> source e = to_json p \<and> py_getitem p ''type'' = Inr (bad_type e)"
  using assms by (auto simp: BadEvent_from_dict_def ebind_eq_Inr_iff)

lemma RedactedEvent_from_dict_bad:
  assumes "RedactedEvent_from_dict V to_json p = Inr e" and "is_BadEvent e"
  shows "\<not> V Schemas_redacted_event p \<and> BadEvent_from_dict to_json p = Inr e"
proof (cases "V Schemas_redacted_event p")
  case False
  with assms(1) show ?thesis
    by (simp add: RedactedEvent_from_dict_def)
next
  case True
  with assms(1) have "\<not> is_BadEvent e"
    by (auto simp: RedactedEvent_from_dict_def ebind_eq_Inr_iff)
  with assms(2) show ?thesis by simp
qed

lemma RoomMessageText_from_dict_bad:
  assumes "RoomMessageText_from_dict V to_json p = Inr e" and "is_BadEvent e"
  shows "\<not> V Schemas_room_message_text p \<and> BadEvent_from_dict to_json p = Inr e"
proof (cases "V Schemas_room_message_text p")
  case False
  with assms(1) show ?thesis
    by (simp add: RoomMessageText_from_dict_def)
next
  case True
  with assms(1) have "\<not> is_BadEvent e"
    by (auto simp: RoomMessageText_from_dict_def ebind_eq_Inr_iff)
  with assms(2) show ?thesis by simp
qed

lemma RoomMessage_from_dict_bad:
  assumes "RoomMessage_from_dict V to_json p olm = Inr (Some e)" and "is_BadEvent e"
  shows "(\<not> V Schemas_room_message p \<or> \<not> V Schemas_room_message_text p)
       \<and> BadEvent_from_dict to_json p = Inr e"
proof (cases "V Schemas_room_message p")
  case False
  with assms(1) show ?thesis
    by (auto simp: RoomMessage_from_dict_def ebind_eq_Inr_iff)
next
  case True
  with assms(1) have "RoomMessageText_from_dict V to_json p = Inr e"
    by (auto simp: RoomMessage_from_dict_def ebind_eq_Inr_iff split: if_splits)
  from RoomMessageText_from_dict_bad [OF this assms(2)] show ?thesis
    by simp
qed

lemma room_events_try_bad:
  assumes "room_events_try V to_json olm p = Inr [Some e]" and "is_BadEvent e"
  shows "V Schemas_room_event p
       \<and> (\<not> V Schemas_redacted_event p \<or> \<not> V Schemas_room_message p
            \<or> \<not> V Schemas_room_message_text p)
       \<and> BadEvent_from_dict to_json p = Inr e"
proof -
  have v: "V Schemas_room_event p"
  proof (rule ccontr)
    assume "\<not> V Schemas_room_event p"
    with assms(1) show False
      by (simp add: room_events_try_def)
  qed
  with assms(1) have "RedactedEvent_from_dict V to_json p = Inr e
      \<or> RoomMessage_from_dict V to_json p olm = Inr (Some e)"
    by (auto simp: room_events_try_def ebind_eq_Inr_iff split: if_splits)
  then show ?thesis
  proof
    assume "RedactedEvent_from_dict V to_json p = Inr e"
    from RedactedEvent_from_dict_bad [OF this assms(2)] v show ?thesis
      by simp
  next
    assume "RoomMessage_from_dict V to_json p olm = Inr (Some e)"
    from RoomMessage_from_dict_bad [OF this assms(2)] v show ?thesis
      by blast
  qed
qed

section \<open>Timeline events\<close>

text \<open>
  C1, as stated, refuted.  The statement expects a \<^verbatim>\<open>BadEvent\<close> for an event that fails
  the generic room-event schema; the handler in \<^verbatim>\<open>_get_room_events\<close> prints the
  validation error and goes on, so the event leaves no entry at all.  On a timeline of two
  text messages with an event without \<^verbatim>\<open>sender\<close> between them, the result has the two
  text messages and nothing else.
\<close>

theorem malformed_event_yields_no_BadEvent:
  "\<not> spec_schemas Schemas_room_event
       (JObj [(''event_id'', JStr ''$2''), (''origin_server_ts'', JInt 101),
              (''type'', JStr ''m.room.message''),
              (''content'', JObj [(''msgtype'', JStr ''m.text''), (''body'', JStr ''lost'')])])
   \<and> get_room_events spec_schemas Api_to_json
       (JArr [JObj [(''event_id'', JStr ''$1''), (''sender'', JStr ''@a:x''),
                    (''origin_server_ts'', JInt 100), (''type'', JStr ''m.room.message''),
                    (''content'', JObj [(''msgtype'', JStr ''m.text''), (''body'', JStr ''hi'')])],
              JObj [(''event_id'', JStr ''$2''), (''origin_server_ts'', JInt 101),
                    (''type'', JStr ''m.room.message''),
                    (''content'', JObj [(''msgtype'', JStr ''m.text''), (''body'', JStr ''lost'')])],
              JObj [(''event_id'', JStr ''$3''), (''sender'', JStr ''@b:x''),
                    (''origin_server_ts'', JInt 102), (''type'', JStr ''m.room.message''),
                    (''content'', JObj [(''msgtype'', JStr ''m.text''), (''body'', JStr ''bye'')])]])
       0 (None :: unit option)
     = Inr [Some (RoomMessageText (JStr ''$1'') (JStr ''@a:x'') (JInt 100) (JStr ''hi'') JNull JNull),
            Some (RoomMessageText (JStr ''$3'') (JStr ''@b:x'') (JInt 102) (JStr ''bye'') JNull JNull)]"
  by (simp add: decode_defs)

text \<open>
  C1, amended.  In an event array with one event that fails the generic room-event schema
  among N events that each decode to an event, \<^verbatim>\<open>_get_room_events\<close> returns exactly the N
  decoded events in their original order; the malformed event contributes nothing (no
  \<^verbatim>\<open>BadEvent\<close>) and neither removes nor alters any other event.
\<close>

theorem malformed_event_is_skipped:
  assumes "\<not> V Schemas_room_event bad"
    and "list_all2 (\<lambda>e d. get_room_events V to_json (JArr [e]) m olm = Inr [Some d]) xs dxs"
    and "list_all2 (\<lambda>e d. get_room_events V to_json (JArr [e]) m olm = Inr [Some d]) ys dys"
  shows "get_room_events V to_json (JArr [bad]) m olm = Inr []
       \<and> get_room_events V to_json (JArr (xs @ bad # ys)) m olm = Inr (map Some (dxs @ dys))"
proof -
  note b = get_room_events_invalid [of V bad to_json m olm, OF assms(1)]
  have "get_room_events V to_json (JArr (bad # ys)) m olm = Inr (map Some dys)"
    using b get_room_events_decoded [OF assms(3)]
    by (simp add: get_room_events_Cons [of V to_json bad ys m olm])
  then have "get_room_events V to_json (JArr (xs @ bad # ys)) m olm =
      Inr (map Some dxs @ map Some dys)"
    using get_room_events_decoded [OF assms(2)]
    by (simp add: get_room_events_append [of V to_json xs "bad # ys" m olm])
  with b show ?thesis by simp
qed

theorem malformed_event_is_skipped_witness:
  "get_room_events spec_schemas Api_to_json
       (JArr ([JObj [(''event_id'', JStr ''$1''), (''sender'', JStr ''@a:x''),
                    (''origin_server_ts'', JInt 100), (''type'', JStr ''m.room.message''),
                    (''content'', JObj [(''msgtype'', JStr ''m.text''), (''body'', JStr ''hi'')])]]
              @ JObj [(''event_id'', JStr ''$2''), (''origin_server_ts'', JInt 101),
                    (''type'', JStr ''m.room.message''),
                    (''content'', JObj [(''msgtype'', JStr ''m.text''), (''body'', JStr ''lost'')])]
              # [JObj [(''event_id'', JStr ''$3''), (''sender'', JStr ''@b:x''),
                    (''origin_server_ts'', JInt 102), (''type'', JStr ''m.room.message''),
                    (''content'', JObj [(''msgtype'', JStr ''m.text''), (''body'', JStr ''bye'')])]]))
       0 (None :: unit option)
     = Inr (map Some
         ([RoomMessageText (JStr ''$1'') (JStr ''@a:x'') (JInt 100) (JStr ''hi'') JNull JNull]
          @ [RoomMessageText (JStr ''$3'') (JStr ''@b:x'') (JInt 102) (JStr ''bye'') JNull JNull]))"
proof -
  let ?x = "JObj [(''event_id'', JStr ''$1''), (''sender'', JStr ''@a:x''),
                    (''origin_server_ts'', JInt 100), (''type'', JStr ''m.room.message''),
                    (''content'', JObj [(''msgtype'', JStr ''m.text''), (''body'', JStr ''hi'')])]"
  let ?bad = "JObj [(''event_id'', JStr ''$2''), (''origin_server_ts'', JInt 101),
                    (''type'', JStr ''m.room.message''),
                    (''content'', JObj [(''msgtype'', JStr ''m.text''), (''body'', JStr ''lost'')])]"
  let ?y = "JObj [(''event_id'', JStr ''$3''), (''sender'', JStr ''@b:x''),
                    (''origin_server_ts'', JInt 102), (''type'', JStr ''m.room.message''),
                    (''content'', JObj [(''msgtype'', JStr ''m.text''), (''body'', JStr ''bye'')])]"
  let ?dx = "RoomMessageText (JStr ''$1'') (JStr ''@a:x'') (JInt 100) (JStr ''hi'') JNull JNull"
  let ?dy = "RoomMessageText (JStr ''$3'') (JStr ''@b:x'') (JInt 102) (JStr ''bye'') JNull JNull"
  have 1: "\<not> spec_schemas Schemas_room_event ?bad"
    by (simp add: requires_def)
  have 2: "list_all2 (\<lambda>e d. get_room_events spec_schemas Api_to_json (JArr [e]) 0
              (None :: unit option) = Inr [Some d]) [?x] [?dx]"
    by (simp add: decode_defs)
  have 3: "list_all2 (\<lambda>e d. get_room_events spec_schemas Api_to_json (JArr [e]) 0
              (None :: unit option) = Inr [Some d]) [?y] [?dy]"
    by (simp add: decode_defs)
  from malformed_event_is_skipped [OF 1 2 3] show ?thesis by simp
qed

text \<open>
  What \<^verbatim>\<open>_get_room_events\<close> does with a room message that is not a text message, in
  general: \<^verbatim>\<open>RoomMessage.from_dict\<close> returns \<^verbatim>\<open>None\<close> for it, and the loop appends that
  return value without looking at it, so \<^verbatim>\<open>None\<close> stands in the decoded list at the
  event's position.
\<close>

lemma non_text_message_leaves_None:
  assumes "V Schemas_room_event p" and "V Schemas_room_message p"
    and "py_getitem p ''type'' = Inr (JStr ''m.room.message'')"
    and "py_getitem p ''content'' = Inr c" and "py_getitem c ''msgtype'' = Inr mt"
    and "mt \<noteq> JStr ''m.text''"
    and "py_in ''unsigned'' p = Inr False
       \<or> (\<exists>u. py_getitem p ''unsigned'' = Inr u \<and> py_in ''redacted_because'' u = Inr False)"
    and "get_room_events V to_json (JArr xs) m olm = Inr dxs"
    and "get_room_events V to_json (JArr ys) m olm = Inr dys"
  shows "RoomMessage_from_dict V to_json p olm = Inr None
       \<and> get_room_events V to_json (JArr (xs @ p # ys)) m olm = Inr (dxs @ None # dys)"
proof -
  from assms(2,4-6) have 1: "RoomMessage_from_dict V to_json p olm = Inr None"
    by (simp add: RoomMessage_from_dict_def)
  from assms(3) obtain fs where p: "p = JObj fs"
    by (auto simp: py_getitem_Inr_iff)
  have "ebind (py_in ''unsigned'' p) (\<lambda>has_unsigned.
          if has_unsigned
          then ebind (py_getitem p ''unsigned'') (\<lambda>u. py_in ''redacted_because'' u)
          else Inr False) = Inr False"
    using assms(7)
  proof
    assume "py_in ''unsigned'' p = Inr False"
    then show ?thesis by simp
  next
    assume "\<exists>u. py_getitem p ''unsigned'' = Inr u \<and> py_in ''redacted_because'' u = Inr False"
    then obtain u where u: "py_getitem p ''unsigned'' = Inr u"
      "py_in ''redacted_because'' u = Inr False" by blast
    with p have "''unsigned'' \<in> fst ` set fs"
      by (auto split: option.splits intro: map_of_Some_key)
    with p u show ?thesis by simp
  qed
  then have "ebind (py_in ''unsigned'' p) (\<lambda>has_unsigned.
      ebind (if has_unsigned
            then ebind (py_getitem p ''unsigned'') (\<lambda>u. py_in ''redacted_because'' u)
            else Inr False) f) = f False" for f :: "bool \<Rightarrow> error + event option list"
    by (cases "py_in ''unsigned'' p") (auto split: if_splits)
  with assms(1,3) 1 have "room_events_try V to_json olm p = Inr [None]"
    by (simp add: room_events_try_def)
  then have "get_room_events V to_json (JArr [p]) m olm = Inr [None]"
    by (simp add: get_room_events_single)
  with assms(9) have "get_room_events V to_json (JArr (p # ys)) m olm = Inr (None # dys)"
    by (simp add: get_room_events_Cons [of V to_json p ys m olm])
  with assms(8) have "get_room_events V to_json (JArr (xs @ p # ys)) m olm =
      Inr (dxs @ None # dys)"
    by (simp add: get_room_events_append [of V to_json xs "p # ys" m olm])
  with 1 show ?thesis by simp
qed

text \<open>
  C3.  A payload of type \<^verbatim>\<open>m.room.message\<close> with \<^verbatim>\<open>content.msgtype\<close> \<^verbatim>\<open>m.notice\<close>, which passes
  the room-event and room-message schemas, is to yield no event, the decoded list being one
  element shorter than the event array.  \<^verbatim>\<open>RoomMessage.from_dict\<close> does return \<^verbatim>\<open>None\<close>
  for it, but \<^verbatim>\<open>_get_room_events\<close> appends the \<^verbatim>\<open>None\<close>: decoding the array that holds
  this one event gives a list of one entry, \<^verbatim>\<open>None\<close>, not the empty list.  The return
  type stated for \<^verbatim>\<open>RoomMessage.from_dict\<close> is \<^verbatim>\<open>Union[Event, BadEvent]\<close>, and an event of
  any other type than \<^verbatim>\<open>m.room.message\<close> adds nothing to the list.
\<close>

theorem non_text_message_is_not_dropped:
  "RoomMessage_from_dict spec_schemas Api_to_json
     (JObj [(''event_id'', JStr ''$1''), (''sender'', JStr ''@a:x''),
            (''origin_server_ts'', JInt 100), (''type'', JStr ''m.room.message''),
            (''content'', JObj [(''msgtype'', JStr ''m.notice''), (''body'', JStr ''hi'')])])
     (None :: unit option) = Inr None
   \<and> get_room_events spec_schemas Api_to_json
     (JArr [JObj [(''event_id'', JStr ''$1''), (''sender'', JStr ''@a:x''),
                  (''origin_server_ts'', JInt 100), (''type'', JStr ''m.room.message''),
                  (''content'', JObj [(''msgtype'', JStr ''m.notice''), (''body'', JStr ''hi'')])]])
     0 (None :: unit option)
   = Inr [None]
   \<and> get_room_events spec_schemas Api_to_json
     (JArr [JObj [(''event_id'', JStr ''$0''), (''sender'', JStr ''@a:x''),
                  (''origin_server_ts'', JInt 99), (''type'', JStr ''m.room.member''),
                  (''content'', JObj [(''membership'', JStr ''join'')])]])
     0 (None :: unit option)
   = Inr []"
  by (simp add: decode_defs)

text \<open>
  C4.  For every payload that passes the text-message schema, with \<^verbatim>\<open>content.body\<close>
  and the three identity fields present, \<^verbatim>\<open>RoomMessageText.from_dict\<close> returns a
  \<^verbatim>\<open>RoomMessageText\<close> whose \<^verbatim>\<open>body\<close> is the content's body and whose
  \<^verbatim>\<open>formatted_body\<close> and \<^verbatim>\<open>format\<close> are the content's members of these names, each
  \<^verbatim>\<open>None\<close> when its key is absent.  If the payload has type \<^verbatim>\<open>m.room.message\<close>,
  message type \<^verbatim>\<open>m.text\<close>, no \<^verbatim>\<open>unsigned\<close> member and passes the room-event and
  room-message schemas as well, this event is what \<^verbatim>\<open>_get_room_events\<close> decodes it to.
  The instance checked below is the text message \<^verbatim>\<open>$1\<close> from \<^verbatim>\<open>@a:x\<close> with body
  \<^verbatim>\<open>hi\<close>: both optional fields are \<^verbatim>\<open>None\<close>.
\<close>

theorem text_message_decodes:
  assumes "V Schemas_room_message_text p"
    and "py_getitem p ''content'' = Inr (JObj cs)" and "map_of cs ''body'' = Some b"
    and "py_getitem p ''event_id'' = Inr eid" and "py_getitem p ''sender'' = Inr sndr"
    and "py_getitem p ''origin_server_ts'' = Inr ts"
  shows "RoomMessageText_from_dict V to_json p =
           Inr (RoomMessageText eid sndr ts b
                  (case map_of cs ''formatted_body'' of Some v \<Rightarrow> v | None \<Rightarrow> JNull)
                  (case map_of cs ''format'' of Some v \<Rightarrow> v | None \<Rightarrow> JNull))
       \<and> (V Schemas_room_event p \<and> V Schemas_room_message p \<and>
          py_getitem p ''type'' = Inr (JStr ''m.room.message'') \<and>
          map_of cs ''msgtype'' = Some (JStr ''m.text'') \<and>
          py_getitem p ''unsigned'' = Inl (KeyError ''unsigned'') \<longrightarrow>
          get_room_events V to_json (JArr [p]) m olm =
            Inr [Some (RoomMessageText eid sndr ts b
                   (case map_of cs ''formatted_body'' of Some v \<Rightarrow> v | None \<Rightarrow> JNull)
                   (case map_of cs ''format'' of Some v \<Rightarrow> v | None \<Rightarrow> JNull))])"
proof -
  let ?e = "RoomMessageText eid sndr ts b
                  (case map_of cs ''formatted_body'' of Some v \<Rightarrow> v | None \<Rightarrow> JNull)
                  (case map_of cs ''format'' of Some v \<Rightarrow> v | None \<Rightarrow> JNull)"
  from assms have 1: "RoomMessageText_from_dict V to_json p = Inr ?e"
    by (simp add: RoomMessageText_from_dict_def cong: if_cong)
  have "get_room_events V to_json (JArr [p]) m olm = Inr [Some ?e]"
    if h: "V Schemas_room_event p" "V Schemas_room_message p"
      "py_getitem p ''type'' = Inr (JStr ''m.room.message'')"
      "map_of cs ''msgtype'' = Some (JStr ''m.text'')"
      "py_getitem p ''unsigned'' = Inl (KeyError ''unsigned'')"
  proof -
    from assms(2) obtain fs where p: "p = JObj fs"
      by (auto simp: py_getitem_Inr_iff)
    with h(5) have "''unsigned'' \<notin> fst ` set fs"
      by (auto split: option.splits simp: map_of_eq_None_iff)
    with p have u: "py_in ''unsigned'' p = Inr False" by simp
    from h(2,4) assms(2) 1 have "RoomMessage_from_dict V to_json p olm = Inr (Some ?e)"
      by (simp add: RoomMessage_from_dict_def)
    with h(1,3) u have "room_events_try V to_json olm p = Inr [Some ?e]"
      by (simp add: room_events_try_def)
    then show ?thesis
      by (simp add: get_room_events_single)
  qed
  with 1 show ?thesis by blast
qed

theorem text_message_decodes_witness:
  "RoomMessageText_from_dict spec_schemas Api_to_json
     (JObj [(''event_id'', JStr ''$1''), (''sender'', JStr ''@a:x''),
            (''origin_server_ts'', JInt 100), (''type'', JStr ''m.room.message''),
            (''content'', JObj [(''msgtype'', JStr ''m.text''), (''body'', JStr ''hi'')])])
   = Inr (RoomMessageText (JStr ''$1'') (JStr ''@a:x'') (JInt 100) (JStr ''hi'') JNull JNull)
   \<and> get_room_events spec_schemas Api_to_json
     (JArr [JObj [(''event_id'', JStr ''$1''), (''sender'', JStr ''@a:x''),
            (''origin_server_ts'', JInt 100), (''type'', JStr ''m.room.message''),
            (''content'', JObj [(''msgtype'', JStr ''m.text''), (''body'', JStr ''hi'')])]])
     0 (None :: unit option)
   = Inr [Some (RoomMessageText (JStr ''$1'') (JStr ''@a:x'') (JInt 100) (JStr ''hi'')
           JNull JNull)]"
  using text_message_decodes [of spec_schemas
      "JObj [(''event_id'', JStr ''$1''), (''sender'', JStr ''@a:x''),
            (''origin_server_ts'', JInt 100), (''type'', JStr ''m.room.message''),
            (''content'', JObj [(''msgtype'', JStr ''m.text''), (''body'', JStr ''hi'')])]"
      "[(''msgtype'', JStr ''m.text''), (''body'', JStr ''hi'')]"
      "JStr ''hi''" "JStr ''$1''" "JStr ''@a:x''" "JInt 100" Api_to_json 0 "None :: unit option"]
  by (simp add: requires_def sub_ok_def)

text \<open>
  C5, as stated, refuted: a payload without \<^verbatim>\<open>sender\<close> fails the generic room-event
  schema and is skipped by \<^verbatim>\<open>_get_room_events\<close>, which returns the empty list for it;
  \<^verbatim>\<open>BadEvent.from_dict\<close> itself raises \<^verbatim>\<open>KeyError\<close> on such a payload.
\<close>

theorem missing_sender_yields_no_BadEvent:
  "get_room_events spec_schemas Api_to_json
     (JArr [JObj [(''event_id'', JStr ''$1''), (''origin_server_ts'', JInt 100),
                  (''type'', JStr ''m.room.message''),
                  (''content'', JObj [(''msgtype'', JStr ''m.text''), (''body'', JStr ''hi'')])]])
     0 (None :: unit option) = Inr []
   \<and> BadEvent_from_dict Api_to_json
     (JObj [(''event_id'', JStr ''$1''), (''origin_server_ts'', JInt 100),
            (''type'', JStr ''m.room.message''),
            (''content'', JObj [(''msgtype'', JStr ''m.text''), (''body'', JStr ''hi'')])])
     = Inl (KeyError ''sender'')"
  by (simp add: decode_defs)

text \<open>
  C5, amended.  An event payload that fails the generic room-event schema yields no
  event.  Whenever the decoding of an event payload does yield a \<^verbatim>\<open>BadEvent\<close>, the payload
  has passed the generic room-event schema and has failed the redacted-event, the
  room-message or the text-message schema, the event's \<^verbatim>\<open>source\<close> is \<^verbatim>\<open>Api.to_json\<close> of
  the original payload and its \<^verbatim>\<open>type\<close> is the payload's raw \<^verbatim>\<open>type\<close> field.
\<close>

theorem BadEvent_only_after_generic_schema:
  "(\<not> V Schemas_room_event p \<longrightarrow> get_room_events V to_json (JArr [p]) m olm = Inr [])
   \<and> (\<forall>e. get_room_events V to_json (JArr [p]) m olm = Inr [Some e] \<and> is_BadEvent e \<longrightarrow>
          V Schemas_room_event p \<and>
          (\<not> V Schemas_redacted_event p \<or> \<not> V Schemas_room_message p
             \<or> \<not> V Schemas_room_message_text p) \<and>
          source e = to_json p \<and> py_getitem p ''type'' = Inr (bad_type e))"
proof (intro conjI impI allI)
  assume "\<not> V Schemas_room_event p"
  then show "get_room_events V to_json (JArr [p]) m olm = Inr []"
    by (rule get_room_events_invalid)
next
  fix e
  assume a: "get_room_events V to_json (JArr [p]) m olm = Inr [Some e] \<and> is_BadEvent e"
  then have a1: "get_room_events V to_json (JArr [p]) m olm = Inr [Some e]"
    and a2: "is_BadEvent e"
    by simp_all
  have b: "V Schemas_room_event p
       \<and> (\<not> V Schemas_redacted_event p \<or> \<not> V Schemas_room_message p
            \<or> \<not> V Schemas_room_message_text p)
       \<and> BadEvent_from_dict to_json p = Inr e"
    by (rule room_events_try_bad [OF get_room_events_single_Inr [OF a1] a2])
  then show "V Schemas_room_event p"
    and "\<not> V Schemas_redacted_event p \<or> \<not> V Schemas_room_message p
            \<or> \<not> V Schemas_room_message_text p"
    by simp_all
  from b BadEvent_from_dict_fields [of to_json p e]
  show "source e = to_json p" "py_getitem p ''type'' = Inr (bad_type e)"
    by simp_all
qed

theorem BadEvent_only_after_generic_schema_witness:
  "spec_schemas Schemas_room_event
     (JObj [(''event_id'', JStr ''$4''), (''sender'', JStr ''@a:x''),
            (''origin_server_ts'', JInt 104), (''type'', JStr ''m.room.message''),
            (''content'', JObj [(''body'', JStr ''hi'')])])
   \<and> \<not> spec_schemas Schemas_room_message
     (JObj [(''event_id'', JStr ''$4''), (''sender'', JStr ''@a:x''),
            (''origin_server_ts'', JInt 104), (''type'', JStr ''m.room.message''),
            (''content'', JObj [(''body'', JStr ''hi'')])])
   \<and> get_room_events spec_schemas Api_to_json
     (JArr [JObj [(''event_id'', JStr ''$1''), (''origin_server_ts'', JInt 100),
                  (''type'', JStr ''m.room.message''),
                  (''content'', JObj [(''msgtype'', JStr ''m.text''), (''body'', JStr ''hi'')])]])
     0 (None :: unit option) = Inr []
   \<and> get_room_events spec_schemas Api_to_json
     (JArr [JObj [(''event_id'', JStr ''$4''), (''sender'', JStr ''@a:x''),
                  (''origin_server_ts'', JInt 104), (''type'', JStr ''m.room.message''),
                  (''content'', JObj [(''body'', JStr ''hi'')])]])
     0 (None :: unit option)
     = Inr [Some (BadEvent (JStr ''$4'') (JStr ''@a:x'') (JInt 104) (JStr ''m.room.message'')
         (Api_to_json (JObj [(''event_id'', JStr ''$4''), (''sender'', JStr ''@a:x''),
                  (''origin_server_ts'', JInt 104), (''type'', JStr ''m.room.message''),
                  (''content'', JObj [(''body'', JStr ''hi'')])])))]
   \<and> source (BadEvent (JStr ''$4'') (JStr ''@a:x'') (JInt 104) (JStr ''m.room.message'')
         (Api_to_json (JObj [(''event_id'', JStr ''$4''), (''sender'', JStr ''@a:x''),
                  (''origin_server_ts'', JInt 104), (''type'', JStr ''m.room.message''),
                  (''content'', JObj [(''body'', JStr ''hi'')])])))
     = Api_to_json (JObj [(''event_id'', JStr ''$4''), (''sender'', JStr ''@a:x''),
                  (''origin_server_ts'', JInt 104), (''type'', JStr ''m.room.message''),
                  (''content'', JObj [(''body'', JStr ''hi'')])])
   \<and> py_getitem (JObj [(''event_id'', JStr ''$4''), (''sender'', JStr ''@a:x''),
                  (''origin_server_ts'', JInt 104), (''type'', JStr ''m.room.message''),
                  (''content'', JObj [(''body'', JStr ''hi'')])]) ''type''
     = Inr (bad_type (BadEvent (JStr ''$4'') (JStr ''@a:x'') (JInt 104)
         (JStr ''m.room.message'')
         (Api_to_json (JObj [(''event_id'', JStr ''$4''), (''sender'', JStr ''@a:x''),
                  (''origin_server_ts'', JInt 104), (''type'', JStr ''m.room.message''),
                  (''content'', JObj [(''body'', JStr ''hi'')])]))))"
proof -
  let ?p1 = "JObj [(''event_id'', JStr ''$1''), (''origin_server_ts'', JInt 100),
                  (''type'', JStr ''m.room.message''),
                  (''content'', JObj [(''msgtype'', JStr ''m.text''), (''body'', JStr ''hi'')])]"
  let ?p2 = "JObj [(''event_id'', JStr ''$4''), (''sender'', JStr ''@a:x''),
                  (''origin_server_ts'', JInt 104), (''type'', JStr ''m.room.message''),
                  (''content'', JObj [(''body'', JStr ''hi'')])]"
  let ?e = "BadEvent (JStr ''$4'') (JStr ''@a:x'') (JInt 104) (JStr ''m.room.message'')
              (Api_to_json ?p2)"
  have 1: "\<not> spec_schemas Schemas_room_event ?p1"
    by (simp add: requires_def)
  have 2: "get_room_events spec_schemas Api_to_json (JArr [?p2]) 0 (None :: unit option)
      = Inr [Some ?e] \<and> is_BadEvent ?e"
    by (simp add: decode_defs del: Api_to_json.simps)
  from BadEvent_only_after_generic_schema
    [of spec_schemas ?p1 Api_to_json 0 "None :: unit option"] 1
  have "get_room_events spec_schemas Api_to_json (JArr [?p1]) 0 (None :: unit option) = Inr []"
    by blast
  moreover from BadEvent_only_after_generic_schema
    [of spec_schemas ?p2 Api_to_json 0 "None :: unit option"] 2
  have "spec_schemas Schemas_room_event ?p2 \<and> source ?e = Api_to_json ?p2 \<and>
      py_getitem ?p2 ''type'' = Inr (bad_type ?e)"
    by blast
  moreover have "\<not> spec_schemas Schemas_room_message ?p2"
    by (simp add: requires_def sub_ok_def)
  ultimately show ?thesis
    using 2 by blast
qed

text \<open>
  C9.  For every event payload that passes the generic room-event schema and has a member
  \<^verbatim>\<open>unsigned.redacted_because\<close>, whatever its \<^verbatim>\<open>type\<close>: if it fails the redacted-event
  schema the decoding yields a \<^verbatim>\<open>BadEvent\<close>; if it passes, the decoding yields a
  \<^verbatim>\<open>RedactedEvent\<close> whose \<^verbatim>\<open>redacter\<close> is \<^verbatim>\<open>unsigned.redacted_because.sender\<close> and
  whose \<^verbatim>\<open>reason\<close> is \<^verbatim>\<open>unsigned.redacted_because.content.reason\<close> when present and
  \<^verbatim>\<open>None\<close> otherwise.  The type of the payload is not looked at: redaction comes before
  the dispatch on \<^verbatim>\<open>type\<close>.
\<close>

theorem redaction_takes_precedence:
  assumes "V Schemas_room_event ev"
    and "py_getitem ev ''unsigned'' = Inr (JObj us)"
    and "map_of us ''redacted_because'' = Some rb"
    and "py_getitem ev ''event_id'' = Inr eid" and "py_getitem ev ''sender'' = Inr sndr"
    and "py_getitem ev ''origin_server_ts'' = Inr ts" and "py_getitem ev ''type'' = Inr ty"
  shows "(\<not> V Schemas_redacted_event ev \<longrightarrow>
            get_room_events V to_json (JArr [ev]) m olm =
              Inr [Some (BadEvent eid sndr ts ty (to_json ev))])
       \<and> (V Schemas_redacted_event ev \<longrightarrow>
            (\<forall>r cs. py_getitem rb ''sender'' = Inr r \<and> py_getitem rb ''content'' = Inr (JObj cs) \<longrightarrow>
               get_room_events V to_json (JArr [ev]) m olm =
                 Inr [Some (RedactedEvent eid sndr ts ty r
                        (case map_of cs ''reason'' of Some v \<Rightarrow> v | None \<Rightarrow> JNull))]))"
proof -
  from assms(2) obtain fs where ev: "ev = JObj fs" and u: "map_of fs ''unsigned'' = Some (JObj us)"
    by (auto simp: py_getitem_Inr_iff)
  from u have "''unsigned'' \<in> fst ` set fs" by (rule map_of_Some_key)
  with ev have 1: "py_in ''unsigned'' ev = Inr True" by simp
  from assms(3) have "''redacted_because'' \<in> fst ` set us" by (rule map_of_Some_key)
  then have 2: "py_in ''redacted_because'' (JObj us) = Inr True" by simp
  have body: "room_events_try V to_json olm ev =
      ebind (RedactedEvent_from_dict V to_json ev) (\<lambda>e. Inr [Some e])"
    using assms(1,2) 1 2 by (simp add: room_events_try_def)
  have a: "get_room_events V to_json (JArr [ev]) m olm =
              Inr [Some (BadEvent eid sndr ts ty (to_json ev))]"
    if "\<not> V Schemas_redacted_event ev"
    using that assms(4-7) body
    by (simp add: get_room_events_single RedactedEvent_from_dict_def BadEvent_from_dict_def)
  have b: "get_room_events V to_json (JArr [ev]) m olm =
                 Inr [Some (RedactedEvent eid sndr ts ty r
                        (case map_of cs ''reason'' of Some v \<Rightarrow> v | None \<Rightarrow> JNull))]"
    if "V Schemas_redacted_event ev" "py_getitem rb ''sender'' = Inr r"
      "py_getitem rb ''content'' = Inr (JObj cs)" for r cs
    using that assms(2-7) body
    by (simp add: get_room_events_single RedactedEvent_from_dict_def cong: if_cong)
  from a b show ?thesis by blast
qed

theorem redaction_takes_precedence_witness:
  "get_room_events spec_schemas Api_to_json
     (JArr [JObj [(''event_id'', JStr ''$2''), (''sender'', JStr ''@a:x''),
            (''origin_server_ts'', JInt 200), (''type'', JStr ''m.room.message''),
            (''content'', JObj []),
            (''unsigned'', JObj [(''redacted_because'',
               JObj [(''sender'', JStr ''@mod:x''),
                     (''content'', JObj [(''reason'', JStr ''spam'')])])])]])
     0 (None :: unit option)
   = Inr [Some (RedactedEvent (JStr ''$2'') (JStr ''@a:x'') (JInt 200) (JStr ''m.room.message'')
            (JStr ''@mod:x'') (JStr ''spam''))]
   \<and> get_room_events spec_schemas Api_to_json
     (JArr [JObj [(''event_id'', JStr ''$3''), (''sender'', JStr ''@a:x''),
            (''origin_server_ts'', JInt 300), (''type'', JStr ''m.room.message''),
            (''content'', JObj []),
            (''unsigned'', JObj [(''redacted_because'', JObj [(''content'', JObj [])])])]])
     0 (None :: unit option)
   = Inr [Some (BadEvent (JStr ''$3'') (JStr ''@a:x'') (JInt 300) (JStr ''m.room.message'')
            (Api_to_json (JObj [(''event_id'', JStr ''$3''), (''sender'', JStr ''@a:x''),
            (''origin_server_ts'', JInt 300), (''type'', JStr ''m.room.message''),
            (''content'', JObj []),
            (''unsigned'', JObj [(''redacted_because'', JObj [(''content'', JObj [])])])])))]"
  using redaction_takes_precedence [of spec_schemas
      "JObj [(''event_id'', JStr ''$2''), (''sender'', JStr ''@a:x''),
            (''origin_server_ts'', JInt 200), (''type'', JStr ''m.room.message''),
            (''content'', JObj []),
            (''unsigned'', JObj [(''redacted_because'',
               JObj [(''sender'', JStr ''@mod:x''),
                     (''content'', JObj [(''reason'', JStr ''spam'')])])])]"
      "[(''redacted_because'',
               JObj [(''sender'', JStr ''@mod:x''),
                     (''content'', JObj [(''reason'', JStr ''spam'')])])]"
      "JObj [(''sender'', JStr ''@mod:x''), (''content'', JObj [(''reason'', JStr ''spam'')])]"
      "JStr ''$2''" "JStr ''@a:x''" "JInt 200" "JStr ''m.room.message''"
      Api_to_json 0 "None :: unit option"]
    redaction_takes_precedence [of spec_schemas
      "JObj [(''event_id'', JStr ''$3''), (''sender'', JStr ''@a:x''),
            (''origin_server_ts'', JInt 300), (''type'', JStr ''m.room.message''),
            (''content'', JObj []),
            (''unsigned'', JObj [(''redacted_because'', JObj [(''content'', JObj [])])])]"
      "[(''redacted_because'', JObj [(''content'', JObj [])])]"
      "JObj [(''content'', JObj [])]"
      "JStr ''$3''" "JStr ''@a:x''" "JInt 300" "JStr ''m.room.message''"
      Api_to_json 0 "None :: unit option"]
  by (simp add: requires_def sub_ok_def del: Api_to_json.simps)

section \<open>The sync response\<close>







section \<open>The to-device envelope\<close>

text \<open>
  C7.  Rendering any to-device message with \<^verbatim>\<open>as_dict\<close> gives exactly the one-key
  dictionary \<^verbatim>\<open>{"messages": {recipient: {recipient_device: content}}}\<close>, with all three
  levels present.  This holds for the base class, for \<^verbatim>\<open>DummyMessage\<close> and for every
  extension of the base record; for a \<^verbatim>\<open>RoomKeyRequestMessage\<close> the envelope is the same
  whatever \<^verbatim>\<open>request_id\<close>, \<^verbatim>\<open>session_id\<close>, \<^verbatim>\<open>room_id\<close> and \<^verbatim>\<open>algorithm\<close> are: these fields
  occur in the result only as far as the caller put them into \<^verbatim>\<open>content\<close>.
\<close>

theorem as_dict_envelope:
  "as_dict (msg :: 'a ToDeviceMessage_scheme) =
     JObj [(''messages'', JObj [(recipient msg, JObj [(recipient_device msg, content msg)])])]
   \<and> as_dict (dummy :: DummyMessage) =
     JObj [(''messages'',
            JObj [(recipient dummy, JObj [(recipient_device dummy, content dummy)])])]
   \<and> as_dict \<lparr>type = t, recipient = r, recipient_device = d, content = c,
               request_id = rq, session_id = sid, room_id = rm, algorithm = alg\<rparr> =
     JObj [(''messages'', JObj [(r, JObj [(d, c)])])]"
  by (simp add: as_dict_def)

section \<open>The error response\<close>

text \<open>
  C8.  \<^verbatim>\<open>ErrorResponse.from_dict\<close> always returns an \<^verbatim>\<open>ErrorResponse\<close>, given that the
  error schema guarantees the two members read after it.  For a payload that passes the
  error schema, \<^verbatim>\<open>message\<close> and \<^verbatim>\<open>code\<close> are the payload's \<^verbatim>\<open>error\<close> and \<^verbatim>\<open>errcode\<close>; for a
  payload that fails it, the result is the placeholder with message \<^verbatim>\<open>"Unknown error"\<close>
  and the empty code.
\<close>

theorem ErrorResponse_from_dict_always_responds:
  assumes "error_adequate V"
  shows "(V Schemas_error p \<longrightarrow>
            (\<exists>e c. py_getitem p ''error'' = Inr e \<and> py_getitem p ''errcode'' = Inr c \<and>
               ErrorResponse_from_dict V p = Inr (ErrorResponse e c)))
       \<and> (\<not> V Schemas_error p \<longrightarrow>
            ErrorResponse_from_dict V p = Inr (ErrorResponse (JStr ''Unknown error'') (JStr [])))"
proof (cases "V Schemas_error p")
  case False
  then show ?thesis
    by (simp add: ErrorResponse_from_dict_def)
next
  case True
  with assms obtain e c where
    "py_getitem p ''error'' = Inr e" "py_getitem p ''errcode'' = Inr c"
    unfolding error_adequate_def by blast
  with True show ?thesis
    by (simp add: ErrorResponse_from_dict_def)
qed

theorem ErrorResponse_from_dict_always_responds_witness:
  "error_adequate spec_schemas
   \<and> ErrorResponse_from_dict spec_schemas
       (JObj [(''errcode'', JStr ''M_FORBIDDEN''), (''error'', JStr ''Forbidden'')])
     = Inr (ErrorResponse (JStr ''Forbidden'') (JStr ''M_FORBIDDEN''))
   \<and> ErrorResponse_from_dict spec_schemas (JObj [(''error'', JStr ''Forbidden'')])
     = Inr (ErrorResponse (JStr ''Unknown error'') (JStr []))"
  using spec_schemas_error
    ErrorResponse_from_dict_always_responds [OF spec_schemas_error,
      of "JObj [(''errcode'', JStr ''M_FORBIDDEN''), (''error'', JStr ''Forbidden'')]"]
    ErrorResponse_from_dict_always_responds [OF spec_schemas_error,
      of "JObj [(''error'', JStr ''Forbidden'')]"]
  by (simp add: requires_def)

section \<open>The unused parameter \<^verbatim>\<open>max_events\<close>\<close>

text \<open>
  C10.  \<^verbatim>\<open>max_events\<close> is accepted by \<^verbatim>\<open>from_dict\<close>, \<^verbatim>\<open>_get_room_info\<close>, \<^verbatim>\<open>_get_timeline\<close>
  and \<^verbatim>\<open>_get_room_events\<close> and read by none of them: for every payload and every \<^verbatim>\<open>olm\<close>
  handle, two calls that differ in \<^verbatim>\<open>max_events\<close> only give the same result, be it a
  response or an exception.  No limit on the number of events is imposed.
\<close>

theorem max_events_has_no_effect:
  "SyncRepsponse_from_dict V to_json p m1 olm = SyncRepsponse_from_dict V to_json p m2 olm
   \<and> get_room_info V to_json p m1 olm = get_room_info V to_json p m2 olm
   \<and> get_timeline V to_json p m1 olm = get_timeline V to_json p m2 olm
   \<and> get_room_events V to_json p m1 olm = get_room_events V to_json p m2 olm"
  by (simp add: SyncRepsponse_from_dict_def get_room_info_def get_timeline_def
      get_room_events_def)

end
